theory Spec2Isabelle
  imports Complex_Main "HOL-Library.Product_Order"
begin

section \<open>Data model\<close>

text \<open>
  The program is a velocity-Verlet molecular dynamics code written with numpy. Every
  array of shape \<open>(n_atoms, 3)\<close> is a list of rows, a row being a triple of
  coordinates. Floating-point numbers are modelled by exact reals: rounding and
  overflow are outside the model. A computation that numpy carries on with
  \<open>nan\<close> or \<open>inf\<close> after a division by zero is the error value
  \<open>NonFinite\<close> here, and an exception raised by Python or numpy is an error value
  too; the model stops at the first of them.

  A real zero has no sign, a floating-point zero has one, and the program looks at it
  in two places: \<open>np.copysign\<close> in \<open>lj_force\<close> and the printing of a
  coordinate, both applied to positions. An array of positions \<open>x\<close> therefore comes
  with its sign bits \<open>nz\<close>: \<open>nz i l\<close> says that \<open>x[i,l]\<close>, when it is zero, is
  the negative zero \<open>-0.0\<close>. The sign bits of the positions after an update are not
  derived by the model: they are a parameter of the step.
\<close>

type_synonym vec3 = "real \<times> real \<times> real"

type_synonym signs = "nat \<Rightarrow> bool"

datatype error = ShapeMismatch | ZeroDivisionError | NonFinite

text \<open>Rows are added and subtracted with \<open>+\<close> and \<open>-\<close> of the product
  type, which work component by component as numpy's do.\<close>

definition vscale :: "real \<Rightarrow> vec3 \<Rightarrow> vec3" where
  "vscale c u = (case u of (a, b, d) \<Rightarrow> (c * a, c * b, c * d))"

definition vdiv :: "vec3 \<Rightarrow> real \<Rightarrow> vec3" where
  "vdiv u c = (case u of (a, b, d) \<Rightarrow> (a / c, b / c, d / c))"

definition vdot :: "vec3 \<Rightarrow> vec3 \<Rightarrow> real" where
  "vdot u w = (case u of (a, b, d) \<Rightarrow> case w of (a', b', d') \<Rightarrow> a * a' + b * b' + d * d')"

definition vnth :: "vec3 \<Rightarrow> nat \<Rightarrow> real" where
  "vnth u l = (case u of (a, b, d) \<Rightarrow> if l = 0 then a else if l = 1 then b else d)"

definition vupd :: "vec3 \<Rightarrow> nat \<Rightarrow> real \<Rightarrow> vec3" where
  "vupd u l r = (case u of (a, b, d) \<Rightarrow>
     if l = 0 then (r, b, d) else if l = 1 then (a, r, d) else (a, b, r))"

section \<open>Lennard-Jones forces\<close>

definition sigma :: real where "sigma = 1"
definition sigma6 :: real where "sigma6 = sigma ^ 6"
definition sigma7 :: real where "sigma7 = sigma6 * sigma"
definition eps :: real where "eps = 1"

text \<open>\<open>np.copysign(1, d)\<close>: the magnitude 1 with the sign bit of \<open>d\<close>;
  \<open>negzero\<close> says whether a zero \<open>d\<close> is \<open>-0.0\<close>.\<close>

definition copysign1 :: "bool \<Rightarrow> real \<Rightarrow> real" where
  "copysign1 negzero d = (if d < 0 \<or> (d = 0 \<and> negzero) then - 1 else 1)"

text \<open>The sign bits of the zeros of \<open>x[i,:]-x[j,:]\<close>: a difference is \<open>-0.0\<close>
  only when it is that of \<open>-0.0\<close> and \<open>+0.0\<close>; two equal numbers that are not
  zero, and every other pair of zeros, give \<open>+0.0\<close>.\<close>

definition diff_negzero :: "vec3 \<Rightarrow> signs \<Rightarrow> vec3 \<Rightarrow> signs \<Rightarrow> signs" where
  "diff_negzero xi ni xj nj l = (vnth xi l = 0 \<and> ni l \<and> vnth xj l = 0 \<and> \<not> nj l)"

text \<open>The body of the loop \<open>for l in range(3)\<close> of \<open>lj_force\<close>, on component
  \<open>l\<close> of the separation vector \<open>dx\<close>, whose zeros have the sign bits \<open>nd\<close>.\<close>

definition pbc_component :: "signs \<Rightarrow> real \<Rightarrow> vec3 \<Rightarrow> nat \<Rightarrow> vec3" where
  "pbc_component nd L dx l =
     (if \<bar>vnth dx l\<bar> < 0.5
      then vupd dx l (vnth dx l - 0.5 * L * copysign1 (nd l) (vnth dx l))
      else dx)"

definition check_pbc :: "signs \<Rightarrow> real \<Rightarrow> vec3 \<Rightarrow> vec3" where
  "check_pbc nd L dx = fold (\<lambda>l dx. pbc_component nd L dx l) [0..<3] dx"

text \<open>The separation vector of a pair, from \<open>dx = x[i,:]-x[j,:]\<close> to the end of the
  periodic check.\<close>

definition separation :: "real \<Rightarrow> vec3 \<Rightarrow> signs \<Rightarrow> vec3 \<Rightarrow> signs \<Rightarrow> vec3" where
  "separation L xi ni xj nj = check_pbc (diff_negzero xi ni xj nj) L (xi - xj)"

text \<open>The body of the pair loop from \<open>dist2\<close> to \<open>lj_f\<close>, as a function of the
  separation vector after the periodic check. With \<open>dist = 0\<close> numpy computes
  \<open>0/0\<close> in \<open>dx /= dist\<close> and the force is \<open>nan\<close>.\<close>

definition lj_of_sep :: "vec3 \<Rightarrow> error + vec3" where
  "lj_of_sep dx =
     (let dist2 = vdot dx dx;
          dist = sqrt dist2
      in if dist = 0 then Inl NonFinite
         else
           let dx = vdiv dx dist;
               dist6 = dist2 powi (- 3);
               dist7 = dist6 / dist
           in Inr (vscale (24 * eps * sigma7 * dist7 * (2 * sigma6 * dist6 - 1)) dx))"

definition lj_pair :: "real \<Rightarrow> vec3 \<Rightarrow> signs \<Rightarrow> vec3 \<Rightarrow> signs \<Rightarrow> error + vec3" where
  "lj_pair L xi ni xj nj = lj_of_sep (separation L xi ni xj nj)"

text \<open>One pass of the body of the loop over \<open>j\<close>: \<open>f[i] -= lj_f; f[j] += lj_f\<close>.\<close>

definition pair_update ::
  "(nat \<Rightarrow> signs) \<Rightarrow> real \<Rightarrow> vec3 list \<Rightarrow> nat \<Rightarrow> nat \<Rightarrow> vec3 list \<Rightarrow> error + vec3 list" where
  "pair_update nz L x i j f =
     (case lj_pair L (x ! i) (nz i) (x ! j) (nz j) of
        Inl e \<Rightarrow> Inl e
      | Inr lj_f \<Rightarrow>
          (let f = f[i := f ! i - lj_f];
               f = f[j := f ! j + lj_f]
           in Inr f))"

fun inner_loop ::
  "(nat \<Rightarrow> signs) \<Rightarrow> real \<Rightarrow> vec3 list \<Rightarrow> nat \<Rightarrow> nat list \<Rightarrow> vec3 list \<Rightarrow> error + vec3 list" where
  "inner_loop nz L x i [] f = Inr f"
| "inner_loop nz L x i (j # js) f =
     (case pair_update nz L x i j f of
        Inl e \<Rightarrow> Inl e
      | Inr f' \<Rightarrow> inner_loop nz L x i js f')"

fun outer_loop ::
  "(nat \<Rightarrow> signs) \<Rightarrow> real \<Rightarrow> vec3 list \<Rightarrow> nat \<Rightarrow> nat list \<Rightarrow> vec3 list \<Rightarrow> error + vec3 list" where
  "outer_loop nz L x N [] f = Inr f"
| "outer_loop nz L x N (i # is) f =
     (case inner_loop nz L x i [i + 1..<N] f of
        Inl e \<Rightarrow> Inl e
      | Inr f' \<Rightarrow> outer_loop nz L x N is f')"

text \<open>\<open>lj_force(x, L)\<close> for the positions \<open>x\<close> with the sign bits \<open>nz\<close>.\<close>

definition lj_force :: "(nat \<Rightarrow> signs) \<Rightarrow> vec3 list \<Rightarrow> real \<Rightarrow> error + vec3 list" where
  "lj_force nz x L =
     (let N = length x;
          f = replicate N (0, 0, 0)
      in outer_loop nz L x N [0..<N - 1] f)"

definition compute_forces :: "(nat \<Rightarrow> signs) \<Rightarrow> vec3 list \<Rightarrow> real \<Rightarrow> error + vec3 list" where
  "compute_forces nz x L = lj_force nz x L"

section \<open>Array arithmetic with broadcasting\<close>

text \<open>
  numpy combines two arrays of shapes \<open>(a, 3)\<close> and \<open>(b, 3)\<close> row by row when
  \<open>a = b\<close>, repeats the single row of the one with one row otherwise, and raises
  \<open>ValueError\<close> when neither holds. An in-place \<open>x += r\<close> keeps the shape of
  \<open>x\<close>: \<open>r\<close> has as many rows as \<open>x\<close> or a single one.
\<close>

definition broadcast2 :: "vec3 list \<Rightarrow> vec3 list \<Rightarrow> error + (vec3 \<times> vec3) list" where
  "broadcast2 a b =
     (if length a = length b then Inr (zip a b)
      else if length a = 1 then Inr (map (\<lambda>w. (hd a, w)) b)
      else if length b = 1 then Inr (map (\<lambda>u. (u, hd b)) a)
      else Inl ShapeMismatch)"

definition array_add :: "vec3 list \<Rightarrow> vec3 list \<Rightarrow> error + vec3 list" where
  "array_add a b =
     (case broadcast2 a b of
        Inl e \<Rightarrow> Inl e
      | Inr ps \<Rightarrow> Inr (map (\<lambda>(u, w). u + w) ps))"

definition array_iadd :: "vec3 list \<Rightarrow> vec3 list \<Rightarrow> error + vec3 list" where
  "array_iadd x r =
     (if length r = length x then Inr (map (\<lambda>(u, w). u + w) (zip x r))
      else if length r = 1 then Inr (map (\<lambda>u. u + hd r) x)
      else Inl ShapeMismatch)"

section \<open>The velocity-Verlet integrator\<close>

text \<open>The wrap of one coordinate. The sums \<open>c + L\<close> and \<open>c - L\<close> are exact here;
  in floating point the sum of a tiny negative \<open>c\<close> and \<open>L\<close> rounds to \<open>L\<close>, so
  a bound below \<open>L\<close> does not carry over from this definition to the program, and
  none is stated.\<close>

definition wrap_component :: "real \<Rightarrow> real \<Rightarrow> real" where
  "wrap_component L c = (if c < 0 then c + L else if c > L then c - L else c)"

definition wrap_row :: "real \<Rightarrow> vec3 \<Rightarrow> vec3" where
  "wrap_row L u = fold (\<lambda>j u. vupd u j (wrap_component L (vnth u j))) [0..<3] u"

definition wrap_positions :: "real \<Rightarrow> vec3 list \<Rightarrow> vec3 list" where
  "wrap_positions L x = fold (\<lambda>i x. x[i := wrap_row L (x ! i)]) [0..<length x] x"

text \<open>\<open>x += v*dt + 0.5*dt*dt*f/m\<close> before the wrap. The array
  \<open>0.5*dt*dt*f\<close> is divided by \<open>m\<close> by numpy, which raises nothing: with
  \<open>m = 0\<close> every row of the result holds \<open>inf\<close> or \<open>nan\<close>.\<close>

definition unwrapped_positions ::
  "vec3 list \<Rightarrow> vec3 list \<Rightarrow> vec3 list \<Rightarrow> real \<Rightarrow> real \<Rightarrow> error + vec3 list" where
  "unwrapped_positions x v f m dt =
     (case array_add (map (vscale dt) v) (map (\<lambda>u. vdiv (vscale (0.5 * dt * dt) u) m) f) of
        Inl e \<Rightarrow> Inl e
      | Inr r \<Rightarrow>
          (case array_iadd x r of
             Inl e \<Rightarrow> Inl e
           | Inr x \<Rightarrow> if m = 0 \<and> x \<noteq> [] then Inl NonFinite else Inr x))"

definition velocity_verlet_update_positions ::
  "vec3 list \<Rightarrow> vec3 list \<Rightarrow> vec3 list \<Rightarrow> real \<Rightarrow> real \<Rightarrow> real \<Rightarrow> error + vec3 list" where
  "velocity_verlet_update_positions x v f m dt L =
     (case unwrapped_positions x v f m dt of
        Inl e \<Rightarrow> Inl e
      | Inr x \<Rightarrow> Inr (wrap_positions L x))"

text \<open>\<open>v += 0.5*dt/m*(f0+f1)\<close>. The factor \<open>0.5*dt/m\<close> is a division of Python
  floats, evaluated first, and raises \<open>ZeroDivisionError\<close> when \<open>m = 0\<close>.\<close>

definition velocity_verlet_update_velocities ::
  "vec3 list \<Rightarrow> vec3 list \<Rightarrow> vec3 list \<Rightarrow> real \<Rightarrow> real \<Rightarrow> error + vec3 list" where
  "velocity_verlet_update_velocities v f0 f1 m dt =
     (if m = 0 then Inl ZeroDivisionError
      else
        case array_add f0 f1 of
          Inl e \<Rightarrow> Inl e
        | Inr s \<Rightarrow> array_iadd v (map (vscale (0.5 * dt / m)) s))"

section \<open>Trajectory frames\<close>

definition digit_char :: "nat \<Rightarrow> char" where
  "digit_char d = ''0123456789'' ! d"

fun str_nat :: "nat \<Rightarrow> string" where
  "str_nat n = (if n < 10 then [digit_char n] else str_nat (n div 10) @ [digit_char (n mod 10)])"

declare str_nat.simps [simp del]

definition rjust :: "nat \<Rightarrow> string \<Rightarrow> string" where
  "rjust w s = replicate (w - length s) CHR '' '' @ s"

definition zfill :: "nat \<Rightarrow> string \<Rightarrow> string" where
  "zfill w s = replicate (w - length s) CHR ''0'' @ s"

text \<open>The conversion \<open>%10d\<close>.\<close>

definition format_10d :: "int \<Rightarrow> string" where
  "format_10d n = rjust 10 ((if n < 0 then ''-'' else []) @ str_nat (nat \<bar>n\<bar>))"

text \<open>The conversion \<open>%10.5f\<close> of a finite number: the exact value is rounded to
  five decimals, a tie going to the even neighbour, and the sign is that of the
  number before rounding; \<open>negzero\<close> says whether a zero is \<open>-0.0\<close>.\<close>

definition round_half_even :: "real \<Rightarrow> int" where
  "round_half_even q =
     (let n = \<lfloor>q\<rfloor>; d = q - of_int n
      in if d < 1 / 2 then n
         else if d > 1 / 2 then n + 1
         else if even n then n else n + 1)"

definition format_10_5f :: "bool \<Rightarrow> real \<Rightarrow> string" where
  "format_10_5f negzero r =
     (let q = nat (round_half_even (\<bar>r\<bar> * 10 ^ 5))
      in rjust 10 ((if r < 0 \<or> (r = 0 \<and> negzero) then ''-'' else [])
                   @ str_nat (q div 10 ^ 5) @ ''.'' @ zfill 5 (str_nat (q mod 10 ^ 5))))"

definition newline :: string where
  "newline = [CHR 0x0A]"

text \<open>The file is the list of the strings written to it, in order.\<close>

definition write_row :: "signs \<Rightarrow> vec3 \<Rightarrow> string" where
  "write_row n u = ''C   '' @ format_10_5f (n 0) (vnth u 0) @ '' ''
                   @ format_10_5f (n 1) (vnth u 1) @ '' ''
                   @ format_10_5f (n 2) (vnth u 2) @ newline"

definition write_trajectory_frame ::
  "(nat \<Rightarrow> signs) \<Rightarrow> vec3 list \<Rightarrow> string list \<Rightarrow> int \<Rightarrow> string list" where
  "write_trajectory_frame nz x file_pointer step =
     (let N = length x;
          file_pointer = file_pointer @ [format_10d (int N) @ newline];
          file_pointer = file_pointer @ [format_10d step @ newline]
      in fold (\<lambda>i fp. fp @ [write_row (nz i) (x ! i)]) [0..<N] file_pointer)"

section \<open>The main loop\<close>

record md_state =
  st_x :: "vec3 list"
  st_nz :: "nat \<Rightarrow> signs"
  st_v :: "vec3 list"
  st_f0 :: "vec3 list"
  st_traj :: "string list"

text \<open>The body of the loop \<open>for step in range(n_steps)\<close> of \<open>run_md\<close>; \<open>nz\<close>
  are the sign bits of the updated positions. \<open>step%dump\<close> raises
  \<open>ZeroDivisionError\<close> when \<open>dump = 0\<close>.\<close>

definition md_step ::
  "real \<Rightarrow> real \<Rightarrow> int \<Rightarrow> real \<Rightarrow> (nat \<Rightarrow> signs) \<Rightarrow> md_state \<Rightarrow> nat \<Rightarrow> error + md_state" where
  "md_step L m dump dt nz s step =
     (case velocity_verlet_update_positions (st_x s) (st_v s) (st_f0 s) m dt L of
        Inl e \<Rightarrow> Inl e
      | Inr x \<Rightarrow>
     (case compute_forces nz x L of
        Inl e \<Rightarrow> Inl e
      | Inr f1 \<Rightarrow>
     (case velocity_verlet_update_velocities (st_v s) (st_f0 s) f1 m dt of
        Inl e \<Rightarrow> Inl e
      | Inr v \<Rightarrow>
     (let f0 = f1
      in if dump = 0 then Inl ZeroDivisionError
         else Inr \<lparr>st_x = x, st_nz = nz, st_v = v, st_f0 = f0,
                   st_traj = (if int step mod dump = 0
                              then write_trajectory_frame nz x (st_traj s) (int step)
                              else st_traj s)\<rparr>))))"

text \<open>The loop over the steps; \<open>nzs step\<close> are the sign bits of the positions
  updated in that step.\<close>

fun md_loop ::
  "real \<Rightarrow> real \<Rightarrow> int \<Rightarrow> real \<Rightarrow> (nat \<Rightarrow> nat \<Rightarrow> signs) \<Rightarrow> nat list \<Rightarrow> md_state \<Rightarrow> error + md_state" where
  "md_loop L m dump dt nzs [] s = Inr s"
| "md_loop L m dump dt nzs (step # steps) s =
     (case md_step L m dump dt (nzs step) s step of
        Inl e \<Rightarrow> Inl e
      | Inr s' \<Rightarrow> md_loop L m dump dt nzs steps s')"

text \<open>\<open>run_md\<close> after its two random initialisations: \<open>x\<close> with the sign bits
  \<open>nz\<close> and \<open>v\<close> are the arrays returned by \<open>initialize_positions(N, L)\<close> and
  \<open>initialize_velocities(N, m, T)\<close>.\<close>

definition run_md ::
  "vec3 list \<Rightarrow> (nat \<Rightarrow> signs) \<Rightarrow> vec3 list \<Rightarrow> real \<Rightarrow> int \<Rightarrow> real \<Rightarrow> int \<Rightarrow> real
     \<Rightarrow> (nat \<Rightarrow> nat \<Rightarrow> signs) \<Rightarrow> error + md_state" where
  "run_md x nz v L n_steps m dump dt nzs =
     (case compute_forces nz x L of
        Inl e \<Rightarrow> Inl e
      | Inr f0 \<Rightarrow>
          md_loop L m dump dt nzs [0..<nat n_steps]
            \<lparr>st_x = x, st_nz = nz, st_v = v, st_f0 = f0, st_traj = []\<rparr>)"

section \<open>Auxiliary notions\<close>

text \<open>What the periodic check of \<open>lj_force\<close> does to one component of the
  separation vector.\<close>

definition pbc_shift :: "bool \<Rightarrow> real \<Rightarrow> real \<Rightarrow> real" where
  "pbc_shift negzero L d = (if \<bar>d\<bar> < 0.5 then d - 0.5 * L * copysign1 negzero d else d)"

text \<open>The distance of a pair as \<open>lj_force\<close> computes it, after the periodic
  check.\<close>

definition pair_dist :: "real \<Rightarrow> vec3 \<Rightarrow> signs \<Rightarrow> vec3 \<Rightarrow> signs \<Rightarrow> real" where
  "pair_dist L xi ni xj nj = (let dx = separation L xi ni xj nj in sqrt (vdot dx dx))"

text \<open>The total momentum \<open>\<Sum> m * v[i]\<close>.\<close>

definition momentum :: "real \<Rightarrow> vec3 list \<Rightarrow> vec3" where
  "momentum m v = sum_list (map (vscale m) v)"

text \<open>The minimum-image correction of one component in the words of the
  specification: a component of magnitude above \<open>boxLength/2\<close> is shifted by
  \<open>boxLength\<close> times its sign.\<close>

definition spec_minimum_image :: "real \<Rightarrow> real \<Rightarrow> real" where
  "spec_minimum_image boxLength d =
     (if \<bar>d\<bar> > boxLength / 2 then d - boxLength * sgn d else d)"


text \<open>The force magnitude in the words of the specification.\<close>

definition spec_lj_magnitude :: "real \<Rightarrow> real" where
  "spec_lj_magnitude r = 24 * eps * sigma ^ 6 / r ^ 6 * (2 * sigma ^ 6 / r ^ 6 - 1)"

section \<open>Rows and the periodic check\<close>

lemma check_pbc_triple:
  "check_pbc nd L (a, b, d) = (pbc_shift (nd 0) L a, pbc_shift (nd 1) L b, pbc_shift (nd 2) L d)"
  by (simp add: check_pbc_def pbc_component_def pbc_shift_def vnth_def vupd_def upt_rec
      numeral_2_eq_2)

lemma less_three: "l < 3 \<Longrightarrow> l = 0 \<or> l = 1 \<or> l = (2::nat)"
  by arith

lemma vnth_check_pbc: "l < 3 \<Longrightarrow> vnth (check_pbc nd L dx) l = pbc_shift (nd l) L (vnth dx l)"
  by (cases dx) (auto simp: check_pbc_triple vnth_def dest: less_three)

lemma no_negzero_diff:
  "diff_negzero xi (\<lambda>l. False) xj nj = (\<lambda>l. False)"
  by (rule ext) (simp add: diff_negzero_def)

lemma vnth_diff: "vnth (u - w) l = vnth u l - vnth w l"
  by (cases u; cases w) (simp add: vnth_def)

lemma vupd_same: "vnth u l = r \<Longrightarrow> l < 3 \<Longrightarrow> vupd u l r = u"
  by (cases u) (auto simp: vnth_def vupd_def)

lemma vdot_nonneg: "0 \<le> vdot u u"
  by (cases u) (simp add: vdot_def)

text \<open>
  Claim C1 (the minimum-image threshold). The claim asks that a component of magnitude
  above \<open>boxLength/2\<close> be shifted by one box length and that every other component stay
  as it is. The code tests \<open>|dx[l]| < 0.5\<close> and shifts by half a box length: in a box
  of length 10 the separation \<open>(0.2, -8, 0)\<close> becomes \<open>(-4.8, -8, -5)\<close>, where the
  claim gives \<open>(0.2, 2, 0)\<close>.
\<close>

theorem minimum_image_divergence:
  "check_pbc (\<lambda>l. False) 10 ((0.2, 1, 3) - (0, 9, 3)) = (- 4.8, - 8, - 5)
   \<and> separation 10 (0.2, 1, 3) (\<lambda>l. False) (0, 9, 3) (\<lambda>l. False) = (- 4.8, - 8, - 5)
   \<and> map (spec_minimum_image 10) [0.2 - 0, 1 - 9, 3 - 3] = [0.2, 2, 0]"
  by (simp add: separation_def no_negzero_diff check_pbc_triple pbc_shift_def copysign1_def
      spec_minimum_image_def)

text \<open>
  Claim C10 (a zero component), as amended. When two particles have the same coordinate
  on axis \<open>l\<close>, the raw separation component is zero and passes the test of the
  periodic check. It is \<open>-0.0\<close> exactly when the coordinate of the first particle is
  \<open>-0.0\<close> and that of the second is \<open>+0.0\<close>; then \<open>copysign\<close> gives \<open>-1\<close>
  and the component becomes \<open>+0.5 * L\<close>. Otherwise it is \<open>+0.0\<close>, \<open>copysign\<close>
  gives \<open>+1\<close> and the component becomes \<open>-0.5 * L\<close>. In both cases the pair
  force is the Lennard-Jones force of a separation vector whose component \<open>l\<close> is
  half a box length in magnitude.
\<close>

theorem zero_component_half_box:
  assumes "l < 3" and "vnth xi l = vnth xj l"
    and "nd = diff_negzero xi ni xj nj"
    and "h = (if nd l then 0.5 * L else - 0.5 * L)"
  shows "vnth (xi - xj) l = 0
       \<and> (nd l \<longleftrightarrow> vnth xi l = 0 \<and> ni l \<and> \<not> nj l)
       \<and> copysign1 (nd l) (vnth (xi - xj) l) = (if nd l then - 1 else 1)
       \<and> pbc_component nd L (xi - xj) l = vupd (xi - xj) l h
       \<and> vnth (separation L xi ni xj nj) l = h
       \<and> \<bar>vnth (separation L xi ni xj nj) l\<bar> = \<bar>L\<bar> / 2
       \<and> lj_pair L xi ni xj nj = lj_of_sep (vupd (separation L xi ni xj nj) l h)"
proof -
  have z: "vnth (xi - xj) l = 0"
    using assms(2) by (simp add: vnth_diff)
  have n: "nd l \<longleftrightarrow> vnth xi l = 0 \<and> ni l \<and> \<not> nj l"
    using assms(2) by (auto simp: assms(3) diff_negzero_def)
  have c: "vnth (separation L xi ni xj nj) l = h"
    using assms(1) z
    by (simp add: separation_def assms(3) [symmetric] assms(4) vnth_check_pbc pbc_shift_def
        copysign1_def)
  have a: "\<bar>h\<bar> = \<bar>L\<bar> / 2"
    by (simp add: assms(4) abs_mult)
  have "vupd (separation L xi ni xj nj) l h = separation L xi ni xj nj"
    using c assms(1) by (rule vupd_same)
  then show ?thesis
    using z n c a by (simp add: copysign1_def pbc_component_def lj_pair_def assms(4))
qed

theorem zero_component_half_box_witness:
  "(1::nat) < 3 \<and> vnth (1, 2, 3) 1 = vnth (4, 2, 5) 1
   \<and> vnth (separation 10 (1, 2, 3) (\<lambda>l. False) (4, 2, 5) (\<lambda>l. False)) 1 = - 5"
  using zero_component_half_box [of 1 "(1, 2, 3)" "(4, 2, 5)" "\<lambda>l. False" "\<lambda>l. False"
      "\<lambda>l. False" "- 5" 10]
  by (simp add: vnth_def no_negzero_diff)

text \<open>Claim C10 as stated fails for a first particle at \<open>(-0.0, 1, 2)\<close> and a second
  one at \<open>(+0.0, 4, 5)\<close> in a box of length 10: the coordinates on the first axis are
  equal, the raw separation component is \<open>-0.0\<close>, \<open>copysign\<close> gives \<open>-1\<close> and the
  component becomes \<open>+5\<close>, not \<open>-5\<close>.\<close>

theorem negative_zero_counterexample:
  "vnth (0, 1, 2) 0 = vnth (0, 4, 5) 0
   \<and> copysign1 (diff_negzero (0, 1, 2) (\<lambda>l. l = 0) (0, 4, 5) (\<lambda>l. False) 0)
        (vnth ((0, 1, 2) - (0, 4, 5)) 0) = - 1
   \<and> vnth (separation 10 (0, 1, 2) (\<lambda>l. l = 0) (0, 4, 5) (\<lambda>l. False)) 0 = 5
   \<and> vnth (separation 10 (0, 1, 2) (\<lambda>l. l = 0) (0, 4, 5) (\<lambda>l. False)) 0 \<noteq> - 0.5 * 10"
  by (simp add: separation_def check_pbc_triple pbc_shift_def copysign1_def diff_negzero_def
      vnth_def)

section \<open>The pair force\<close>

lemma sqrt_pow6: "0 \<le> s \<Longrightarrow> s ^ 3 = sqrt s ^ 6"
proof -
  assume "0 \<le> s"
  then have "sqrt s ^ 2 = s" by simp
  then have "s ^ 3 = (sqrt s ^ 2) ^ 3" by simp
  also have "\<dots> = sqrt s ^ 6" by (simp add: power_mult [symmetric] del: real_sqrt_pow2_iff)
  finally show ?thesis .
qed

lemma lj_of_sep_magnitude:
  assumes "r = sqrt (vdot dx dx)" and "r > 0"
  shows "lj_of_sep dx =
           Inr (vscale (24 * eps * sigma ^ 7 / r ^ 7 * (2 * sigma ^ 6 / r ^ 6 - 1)) (vdiv dx r))"
proof -
  have p6: "vdot dx dx ^ 3 = r ^ 6"
    unfolding assms(1) by (rule sqrt_pow6) (rule vdot_nonneg)
  have d6: "vdot dx dx powi (- 3) = 1 / r ^ 6"
    using p6 by (simp add: power_int_def inverse_eq_divide power_one_over)
  have "r ^ 7 = r ^ Suc 6" by simp
  then have p7: "r ^ 7 = r ^ 6 * r" by (simp only: power_Suc2)
  have "r \<noteq> 0" using assms(2) by simp
  then show ?thesis
    using d6 p7 assms(1)
    by (simp add: lj_of_sep_def Let_def sigma_def sigma6_def sigma7_def eps_def)
qed

lemma lj_force_two:
  "lj_force nz [a, b] L =
     (case lj_pair L a (nz 0) b (nz 1) of Inl e \<Rightarrow> Inl e | Inr g \<Rightarrow> Inr [0 - g, 0 + g])"
  by (simp add: lj_force_def pair_update_def Let_def upt_rec zero_prod_def split: sum.splits)

text \<open>
  Claim C3 (the force of a pair), as amended. With \<open>dx\<close> the separation vector after
  the periodic check and \<open>r = |dx| > 0\<close>, the contribution \<open>lj_f\<close> of the pair is
  the unit vector \<open>dx/r\<close> scaled by \<open>24*eps*sigma^7/r^7 * (2*sigma^6/r^6 - 1)\<close>: the
  first factor is in \<open>r^7\<close> (the code's \<open>dist7\<close>), not in \<open>r^6\<close>.
\<close>

theorem lj_pair_magnitude:
  assumes "dx = separation L xi ni xj nj" and "r = sqrt (vdot dx dx)" and "r > 0"
  shows "lj_pair L xi ni xj nj =
           Inr (vscale (24 * eps * sigma ^ 7 / r ^ 7 * (2 * sigma ^ 6 / r ^ 6 - 1)) (vdiv dx r))"
  unfolding lj_pair_def assms(1) [symmetric] using assms(2,3) by (rule lj_of_sep_magnitude)

theorem lj_pair_magnitude_witness:
  "(0::real) < 3 \<and> lj_pair 1 (2, 2, 1) (\<lambda>l. False) (0, 0, 0) (\<lambda>l. False) =
      Inr (vscale (24 * eps * sigma ^ 7 / 3 ^ 7 * (2 * sigma ^ 6 / 3 ^ 6 - 1)) (vdiv (2, 2, 1) 3))"
  using lj_pair_magnitude [of "(2, 2, 1)" 1 "(2, 2, 1)" "\<lambda>l. False" "(0, 0, 0)" "\<lambda>l. False" 3]
  by (simp add: separation_def check_pbc_triple pbc_shift_def vdot_def)

text \<open>Claim C3 as stated fails for the particles \<open>(2, 2, 1)\<close> and \<open>(0, 0, 0)\<close>,
  at distance 3: the contribution is not \<open>dx/r\<close> scaled by the magnitude of the
  specification.\<close>

theorem lj_magnitude_counterexample:
  "sqrt (vdot (separation 1 (2, 2, 1) (\<lambda>l. False) (0, 0, 0) (\<lambda>l. False))
              (separation 1 (2, 2, 1) (\<lambda>l. False) (0, 0, 0) (\<lambda>l. False))) = 3
   \<and> lj_pair 1 (2, 2, 1) (\<lambda>l. False) (0, 0, 0) (\<lambda>l. False)
       \<noteq> Inr (vscale (spec_lj_magnitude 3)
                (vdiv (separation 1 (2, 2, 1) (\<lambda>l. False) (0, 0, 0) (\<lambda>l. False)) 3))"
  by (simp add: lj_pair_def lj_of_sep_def separation_def check_pbc_triple pbc_shift_def
      vdot_def vdiv_def vscale_def spec_lj_magnitude_def sigma_def sigma6_def sigma7_def
      eps_def Let_def)

text \<open>
  Claim C7 (division by zero only for coincident particles; no coordinate below is a
  negative zero). The distance is taken
  after the periodic check, which moves a component of magnitude below 0.5 by half a
  box length. In a box of length \<open>1/2\<close> the distinct particles
  \<open>(1/4, 1/4, 1/4)\<close> and \<open>(0, 0, 0)\<close> get the separation \<open>(0, 0, 0)\<close> and the
  division by zero; two coincident particles in a box of length 1 get the separation
  \<open>(-1/2, -1/2, -1/2)\<close> and no division by zero.
\<close>

theorem coincidence_divergence:
  "(1 / 4, 1 / 4, 1 / 4) \<noteq> ((0, 0, 0) :: vec3)
   \<and> lj_force (\<lambda>i l. False) [(1 / 4, 1 / 4, 1 / 4), (0, 0, 0)] (1 / 2) = Inl NonFinite
   \<and> lj_force (\<lambda>i l. False) [(0, 0, 0), (0, 0, 0)] 1 \<noteq> Inl NonFinite"
  by (simp add: lj_force_two lj_pair_def lj_of_sep_def separation_def no_negzero_diff
      check_pbc_triple pbc_shift_def copysign1_def vdot_def Let_def zero_prod_def)

section \<open>Trajectory frames\<close>

lemma str_nat_digit: "n < 10 \<Longrightarrow> str_nat n = [digit_char n]"
  by (simp add: str_nat.simps)

lemma replicate_num: "replicate (numeral k) c = c # replicate (pred_numeral k) c"
  by (simp add: numeral_eq_Suc)

lemma format_10d_small:
  "format_10d 2 = ''         2''"
  "format_10d 5 = ''         5''"
  by (simp_all add: format_10d_def rjust_def str_nat_digit digit_char_def replicate_num)

lemma format_10_5f_small:
  "format_10_5f n 1 = ''   1.00000''"
  "format_10_5f n 2 = ''   2.00000''"
  "format_10_5f n 3 = ''   3.00000''"
  "format_10_5f n 4 = ''   4.00000''"
  "format_10_5f n 5 = ''   5.00000''"
  "format_10_5f n 6 = ''   6.00000''"
  by (simp_all add: format_10_5f_def round_half_even_def Let_def rjust_def zfill_def
      str_nat_digit digit_char_def replicate_num)

text \<open>
  Claim C9 (the format of a frame). For two particles at \<open>(1, 2, 3)\<close> and
  \<open>(4, 5, 6)\<close> (no coordinate is zero, so the sign bits \<open>nz\<close> play no part) and
  step 5, \<open>write_trajectory_frame\<close> writes four lines to an
  empty file: the particle count and the step, each right-justified in 10 characters,
  then one line for each particle, \<open>C\<close> and three coordinates in 10 characters with 5
  decimals.
\<close>

theorem trajectory_frame_format:
  "write_trajectory_frame nz [(1, 2, 3), (4, 5, 6)] [] 5 =
     [''         2'' @ newline,
      ''         5'' @ newline,
      ''C      1.00000    2.00000    3.00000'' @ newline,
      ''C      4.00000    5.00000    6.00000'' @ newline]"
  by (simp add: write_trajectory_frame_def write_row_def Let_def upt_rec vnth_def
      format_10d_small format_10_5f_small)

section \<open>The position update and the periodic wrap\<close>

lemma wrap_row_triple:
  "wrap_row L (a, b, d) = (wrap_component L a, wrap_component L b, wrap_component L d)"
  by (simp add: wrap_row_def vnth_def vupd_def upt_rec)

lemma vnth_wrap_row: "l < 3 \<Longrightarrow> vnth (wrap_row L u) l = wrap_component L (vnth u l)"
  by (cases u) (auto simp: wrap_row_triple vnth_def)

lemma fold_update_prefix:
  "n \<le> length x \<Longrightarrow>
     fold (\<lambda>i x. x[i := g (x ! i)]) [0..<n] x = map g (take n x) @ drop n x"
proof (induction n)
  case 0
  then show ?case by simp
next
  case (Suc n)
  then have n: "n < length x" by simp
  have "(map g (take n x) @ drop n x)[n := g ((map g (take n x) @ drop n x) ! n)]
          = map g (take n x) @ (drop n x)[0 := g (x ! n)]"
    using n by (simp add: list_update_append nth_append)
  also have "\<dots> = map g (take (Suc n) x) @ drop (Suc n) x"
    using n by (simp add: take_Suc_conv_app_nth Cons_nth_drop_Suc [symmetric])
  finally show ?case
    using Suc by simp
qed

lemma wrap_positions_map: "wrap_positions L x = map (wrap_row L) x"
  by (simp add: wrap_positions_def fold_update_prefix)

lemma unwrapped_positions_same_shape:
  assumes "length v = length x" and "length f = length x" and "m \<noteq> 0"
  shows "unwrapped_positions x v f m dt =
           Inr (map (\<lambda>i. x ! i + (vscale dt (v ! i) + vdiv (vscale (0.5 * dt * dt) (f ! i)) m))
                  [0..<length x])"
proof -
  have "map (\<lambda>(u, w). u + w) (zip x (map (\<lambda>(u, w). u + w)
           (zip (map (vscale dt) v) (map (\<lambda>u. vdiv (vscale (0.5 * dt * dt) u) m) f))))
        = map (\<lambda>i. x ! i + (vscale dt (v ! i) + vdiv (vscale (0.5 * dt * dt) (f ! i)) m))
            [0..<length x]"
    using assms(1,2) by (intro nth_equalityI) simp_all
  then show ?thesis
    using assms by (simp add: unwrapped_positions_def array_add_def broadcast2_def array_iadd_def)
qed

lemma wrap_component_range:
  assumes "- L \<le> u" and "u \<le> 2 * L"
  shows "0 \<le> wrap_component L u \<and> wrap_component L u \<le> L"
  using assms by (auto simp: wrap_component_def)

text \<open>
  Claim C4 (positions after the wrap), as amended. When the arrays have the same shape
  and \<open>m \<noteq> 0\<close>, the position update returns, and a coordinate that starts in
  \<open>[0, L]\<close> and whose displacement in the step is at most \<open>L\<close> in magnitude ends
  the step in the closed interval \<open>[0, L]\<close>, at the wrapped value of the unwrapped
  coordinate \<open>u\<close>, which is \<open>u - L\<close> when \<open>u > L\<close>. The upper end \<open>L\<close> is
  not excluded.
\<close>

theorem wrap_keeps_closed_box:
  assumes "length v = length x" and "length f = length x" and "m \<noteq> 0"
    and "i < length x" and "l < 3"
    and "u = vnth (x ! i + (vscale dt (v ! i) + vdiv (vscale (0.5 * dt * dt) (f ! i)) m)) l"
    and "0 \<le> vnth (x ! i) l" and "vnth (x ! i) l \<le> L"
    and "\<bar>u - vnth (x ! i) l\<bar> \<le> L"
  shows "\<exists>x'. velocity_verlet_update_positions x v f m dt L = Inr x'
           \<and> length x' = length x
           \<and> vnth (x' ! i) l = wrap_component L u
           \<and> 0 \<le> vnth (x' ! i) l \<and> vnth (x' ! i) l \<le> L
           \<and> (u > L \<longrightarrow> vnth (x' ! i) l = u - L)"
proof -
  let ?x' = "map (wrap_row L) (map (\<lambda>i. x ! i + (vscale dt (v ! i)
               + vdiv (vscale (0.5 * dt * dt) (f ! i)) m)) [0..<length x])"
  have r: "velocity_verlet_update_positions x v f m dt L = Inr ?x'"
    using assms(1-3)
    by (simp add: velocity_verlet_update_positions_def unwrapped_positions_same_shape
        wrap_positions_map)
  have c: "vnth (?x' ! i) l = wrap_component L u"
    using assms(4-6) by (simp add: vnth_wrap_row)
  have b: "- L \<le> u" "u \<le> 2 * L"
    using assms(7-9) by auto
  have "0 \<le> wrap_component L u \<and> wrap_component L u \<le> L"
    using b by (rule wrap_component_range)
  moreover have "u > L \<longrightarrow> wrap_component L u = u - L"
    using b by (auto simp: wrap_component_def)
  ultimately show ?thesis
    using r c by simp
qed

theorem wrap_keeps_closed_box_witness:
  "\<exists>x'. velocity_verlet_update_positions [(3.5, 0, 2)] [(1, 0, - 3)] [(0, 0, 0)] 1 1 4 = Inr x'
         \<and> vnth (x' ! 0) 0 = 4.5 - 4 \<and> vnth (x' ! 0) 0 \<le> 4"
  using wrap_keeps_closed_box [of "[(1, 0, -3)]" "[(3.5, 0, 2)]" "[(0, 0, 0)]" 1 0 0
      "4.5" 1 4]
  by (auto simp: vnth_def vscale_def vdiv_def)

text \<open>The half-open interval of claim C4 fails when the unwrapped coordinate is exactly
  \<open>L\<close>: a single particle at \<open>1/2\<close> with velocity \<open>1/2\<close> and time step 1 in a
  box of length 1 ends the step at 1.\<close>

theorem half_open_box_counterexample:
  "compute_forces (\<lambda>i l. False) [(1 / 2, 0, 0)] 1 = Inr [(0, 0, 0)]
   \<and> velocity_verlet_update_positions [(1 / 2, 0, 0)] [(1 / 2, 0, 0)] [(0, 0, 0)] 1 1 1
       = Inr [(1, 0, 0)]
   \<and> \<not> vnth (1, 0, 0) 0 < (1::real)"
  by (simp add: compute_forces_def lj_force_def velocity_verlet_update_positions_def
      unwrapped_positions_def array_add_def broadcast2_def array_iadd_def wrap_positions_map
      wrap_row_triple wrap_component_def vscale_def vdiv_def vnth_def)

section \<open>The sum of the forces\<close>

lemma sum_list_update_group:
  fixes xs :: "'a::ab_group_add list"
  shows "k < length xs \<Longrightarrow> sum_list (xs[k := v]) = sum_list xs - xs ! k + v"
proof (induction xs arbitrary: k)
  case Nil
  then show ?case by simp
next
  case (Cons a xs)
  then show ?case by (cases k) simp_all
qed

lemma sum_list_replicate_zero: "sum_list (replicate n (0::'a::monoid_add)) = 0"
  by (induction n) simp_all

lemma pair_update_sum:
  assumes "pair_update nz L x i j f = Inr f'" and "i < length f" and "j < length f" and "i \<noteq> j"
  shows "sum_list f' = sum_list f \<and> length f' = length f"
proof -
  from assms(1) obtain g where g: "lj_pair L (x ! i) (nz i) (x ! j) (nz j) = Inr g"
    and f': "f' = (f[i := f ! i - g])[j := (f[i := f ! i - g]) ! j + g]"
    by (auto simp: pair_update_def Let_def split: sum.splits)
  have "sum_list f' = sum_list (f[i := f ! i - g]) - (f[i := f ! i - g]) ! j
                        + ((f[i := f ! i - g]) ! j + g)"
    unfolding f' using assms(3) by (simp add: sum_list_update_group)
  also have "\<dots> = sum_list (f[i := f ! i - g]) + g" by simp
  also have "\<dots> = sum_list f" using assms(2) by (simp add: sum_list_update_group)
  finally show ?thesis by (simp add: f')
qed

lemma inner_loop_sum:
  assumes "inner_loop nz L x i js f = Inr f'" and "i < length f"
    and "\<forall>j\<in>set js. j < length f \<and> i \<noteq> j"
  shows "sum_list f' = sum_list f \<and> length f' = length f"
  using assms
proof (induction js arbitrary: f)
  case Nil
  then show ?case by simp
next
  case (Cons j js)
  from Cons.prems(1) obtain f1 where f1: "pair_update nz L x i j f = Inr f1"
    and rest: "inner_loop nz L x i js f1 = Inr f'"
    by (auto split: sum.splits)
  have s1: "sum_list f1 = sum_list f \<and> length f1 = length f"
    using pair_update_sum [OF f1] Cons.prems(2,3) by auto
  have "sum_list f' = sum_list f1 \<and> length f' = length f1"
    using Cons.IH [OF rest] Cons.prems(2,3) s1 by auto
  then show ?case using s1 by simp
qed

lemma outer_loop_sum:
  assumes "outer_loop nz L x N is f = Inr f'" and "N \<le> length f"
    and "\<forall>i\<in>set is. i < length f"
  shows "sum_list f' = sum_list f \<and> length f' = length f"
  using assms
proof (induction "is" arbitrary: f)
  case Nil
  then show ?case by simp
next
  case (Cons i "is")
  from Cons.prems(1) obtain f1 where f1: "inner_loop nz L x i [i + 1..<N] f = Inr f1"
    and rest: "outer_loop nz L x N is f1 = Inr f'"
    by (auto split: sum.splits)
  have s1: "sum_list f1 = sum_list f \<and> length f1 = length f"
    using inner_loop_sum [OF f1] Cons.prems(2,3) by auto
  have "sum_list f' = sum_list f1 \<and> length f' = length f1"
    using Cons.IH [OF rest] Cons.prems(2,3) s1 by auto
  then show ?case using s1 by simp
qed

lemma lj_force_sum:
  assumes "lj_force nz x L = Inr f"
  shows "sum_list f = (0, 0, 0) \<and> length f = length x"
proof -
  let ?z = "replicate (length x) ((0, 0, 0)::vec3)"
  have o: "outer_loop nz L x (length x) [0..<length x - 1] ?z = Inr f"
    using assms by (simp add: lj_force_def Let_def)
  have n: "length x \<le> length ?z" by simp
  have b: "\<forall>i\<in>set [0..<length x - 1]. i < length ?z" by auto
  have "sum_list f = sum_list ?z \<and> length f = length ?z"
    using o n b by (rule outer_loop_sum)
  then show ?thesis
    using sum_list_replicate_zero [of "length x", where ?'a = vec3]
    by (simp add: zero_prod_def)
qed


lemma lj_pair_undefined:
  "pair_dist L xi ni xj nj = 0 \<Longrightarrow> lj_pair L xi ni xj nj = Inl NonFinite"
  by (simp add: pair_dist_def lj_pair_def lj_of_sep_def Let_def)






section \<open>A step of the main loop\<close>

lemma array_iadd_length: "array_iadd x r = Inr y \<Longrightarrow> length y = length x"
  by (auto simp: array_iadd_def split: if_splits)

lemma array_add_length:
  "array_add a b = Inr r \<Longrightarrow>
     length r = (if length a = length b then length a else if length a = 1 then length b
                 else length a)
     \<and> (length a = length b \<or> length a = 1 \<or> length b = 1)"
  by (auto simp: array_add_def broadcast2_def split: if_splits)

lemma update_positions_length:
  "velocity_verlet_update_positions x v f m dt L = Inr x' \<Longrightarrow> length x' = length x"
  by (auto simp: velocity_verlet_update_positions_def unwrapped_positions_def wrap_positions_map
      dest: array_iadd_length split: if_splits sum.splits)

lemma update_positions_shapes:
  assumes "velocity_verlet_update_positions x v f m dt L = Inr x'"
    and "length f = length x"
  shows "length v = length x \<or> length v = 1"
proof -
  from assms(1) obtain r where
    r: "array_add (map (vscale dt) v) (map (\<lambda>u. vdiv (vscale (0.5 * dt * dt) u) m) f) = Inr r"
    and i: "array_iadd x r \<noteq> Inl ShapeMismatch"
    by (auto simp: velocity_verlet_update_positions_def unwrapped_positions_def
        split: if_splits sum.splits)
  from i have "length r = length x \<or> length r = 1"
    by (auto simp: array_iadd_def split: if_splits)
  then show ?thesis
    using array_add_length [OF r] assms(2) by (auto split: if_splits)
qed

lemma update_velocities_shapes:
  assumes "velocity_verlet_update_velocities v f0 f1 m dt = Inr v'"
    and "length f0 = n" and "length f1 = n"
  shows "m \<noteq> 0 \<and> (length v = n \<or> n = 1)"
  using assms
  by (auto simp: velocity_verlet_update_velocities_def array_add_def broadcast2_def
      array_iadd_def split: if_splits)

lemma update_velocities_same_shape:
  assumes "length f0 = length v" and "length f1 = length v" and "m \<noteq> 0"
  shows "velocity_verlet_update_velocities v f0 f1 m dt =
           Inr (map (\<lambda>i. v ! i + vscale (0.5 * dt / m) (f0 ! i + f1 ! i)) [0..<length v])"
proof -
  have "map (\<lambda>(u, w). u + w) (zip v (map (vscale (0.5 * dt / m))
           (map (\<lambda>(u, w). u + w) (zip f0 f1))))
        = map (\<lambda>i. v ! i + vscale (0.5 * dt / m) (f0 ! i + f1 ! i)) [0..<length v]"
    using assms(1,2) by (intro nth_equalityI) simp_all
  then show ?thesis
    using assms
    by (simp add: velocity_verlet_update_velocities_def array_add_def broadcast2_def
        array_iadd_def)
qed

lemma md_step_parts:
  assumes "md_step L m dump dt nz s step = Inr s'"
  shows "\<exists>x' f1 v'. velocity_verlet_update_positions (st_x s) (st_v s) (st_f0 s) m dt L = Inr x'
           \<and> compute_forces nz x' L = Inr f1
           \<and> velocity_verlet_update_velocities (st_v s) (st_f0 s) f1 m dt = Inr v'
           \<and> st_x s' = x' \<and> st_nz s' = nz \<and> st_v s' = v' \<and> st_f0 s' = f1 \<and> dump \<noteq> 0"
  using assms by (auto simp: md_step_def Let_def split: sum.splits if_splits)

lemma compute_forces_length: "compute_forces nz x L = Inr f \<Longrightarrow> length f = length x"
  using lj_force_sum [of nz x L f] by (simp add: compute_forces_def)

lemma md_step_shapes:
  assumes "md_step L m dump dt nz s step = Inr s'" and "length (st_f0 s) = length (st_x s)"
  shows "length (st_v s) = length (st_x s) \<and> length (st_f0 s') = length (st_x s) \<and> m \<noteq> 0"
proof -
  from md_step_parts [OF assms(1)] obtain x' f1 v' where
    p: "velocity_verlet_update_positions (st_x s) (st_v s) (st_f0 s) m dt L = Inr x'"
    and f: "compute_forces nz x' L = Inr f1"
    and v: "velocity_verlet_update_velocities (st_v s) (st_f0 s) f1 m dt = Inr v'"
    and s': "st_f0 s' = f1"
    by blast
  have l1: "length f1 = length (st_x s)"
    using compute_forces_length [OF f] update_positions_length [OF p] by simp
  have a: "length (st_v s) = length (st_x s) \<or> length (st_v s) = 1"
    using p assms(2) by (rule update_positions_shapes)
  have b: "m \<noteq> 0 \<and> (length (st_v s) = length (st_x s) \<or> length (st_x s) = 1)"
    using v assms(2) l1 by (rule update_velocities_shapes)
  show ?thesis using a b l1 s' by auto
qed

lemma forces_example: "compute_forces (\<lambda>i l. False) [(2, 2, 1), (0, 0, 0)] 4 =
   Inr [(11632 / 1594323, 11632 / 1594323, 5816 / 1594323),
        (- (11632 / 1594323), - (11632 / 1594323), - (5816 / 1594323))]"
  by (simp add: compute_forces_def lj_force_two lj_pair_def separation_def
      no_negzero_diff lj_of_sep_def check_pbc_triple
      pbc_shift_def vdot_def vdiv_def vscale_def Let_def sigma_def sigma6_def sigma7_def eps_def)

lemma md_step_example:
  "\<exists>s'. md_step 4 1 1 1 (\<lambda>i l. False)
      \<lparr>st_x = [(2, 2, 1), (0, 0, 0)], st_nz = (\<lambda>i l. False),
             st_v = [(1, 0, 0), (0, 0, 0)],
       st_f0 = [(11632 / 1594323, 11632 / 1594323, 5816 / 1594323),
                (- (11632 / 1594323), - (11632 / 1594323), - (5816 / 1594323))],
       st_traj = []\<rparr> 0 = Inr s'"
  by (simp add: md_step_def velocity_verlet_update_positions_def unwrapped_positions_def
      array_add_def broadcast2_def array_iadd_def wrap_positions_map wrap_row_triple
      wrap_component_def vscale_def vdiv_def compute_forces_def lj_force_two lj_pair_def separation_def
      no_negzero_diff
      lj_of_sep_def check_pbc_triple pbc_shift_def vdot_def Let_def
      velocity_verlet_update_velocities_def)

lemma run_md_example:
  "\<exists>s'. run_md [(2, 2, 1), (0, 0, 0)] (\<lambda>i l. False) [(1, 0, 0), (0, 0, 0)] 4 1 1 1 1
         (\<lambda>k i l. False) = Inr s'"
  using md_step_example by (auto simp: run_md_def forces_example)

text \<open>
  Claim C5 (the velocity update). In a step of \<open>run_md\<close> that starts with \<open>f0\<close>
  the forces of the current positions and that returns, the new positions \<open>x'\<close> are
  the updated and wrapped ones, the new forces \<open>f1\<close> are computed from \<open>x'\<close> and
  become the next \<open>f0\<close>, and every velocity is updated as
  \<open>v[i] + 0.5*dt/m * (f0[i] + f1[i])\<close>.
\<close>

theorem velocity_update_average:
  assumes "md_step L m dump dt nz s step = Inr s'"
    and "compute_forces (st_nz s) (st_x s) L = Inr (st_f0 s)"
  shows "\<exists>x' f1. velocity_verlet_update_positions (st_x s) (st_v s) (st_f0 s) m dt L = Inr x'
           \<and> compute_forces nz x' L = Inr f1
           \<and> st_x s' = x' \<and> st_nz s' = nz \<and> st_f0 s' = f1
           \<and> length (st_v s') = length (st_v s)
           \<and> (\<forall>i<length (st_v s).
                 st_v s' ! i = st_v s ! i + vscale (0.5 * dt / m) (st_f0 s ! i + f1 ! i))"
proof -
  have l0: "length (st_f0 s) = length (st_x s)"
    using assms(2) by (rule compute_forces_length)
  from md_step_parts [OF assms(1)] obtain x' f1 v' where
    p: "velocity_verlet_update_positions (st_x s) (st_v s) (st_f0 s) m dt L = Inr x'"
    and f: "compute_forces nz x' L = Inr f1"
    and v: "velocity_verlet_update_velocities (st_v s) (st_f0 s) f1 m dt = Inr v'"
    and s': "st_x s' = x'" "st_nz s' = nz" "st_v s' = v'" "st_f0 s' = f1"
    by blast
  have sh: "length (st_v s) = length (st_x s)" "length f1 = length (st_x s)" "m \<noteq> 0"
    using md_step_shapes [OF assms(1) l0] s' by simp_all
  have "v' = map (\<lambda>i. st_v s ! i + vscale (0.5 * dt / m) (st_f0 s ! i + f1 ! i))
               [0..<length (st_v s)]"
    using v update_velocities_same_shape [of "st_f0 s" "st_v s" f1 m dt] sh l0 by simp
  then show ?thesis
    using p f s' by simp
qed

theorem velocity_update_average_witness:
  "let s = \<lparr>st_x = [(2, 2, 1), (0, 0, 0)], st_nz = (\<lambda>i l. False),
             st_v = [(1, 0, 0), (0, 0, 0)],
             st_f0 = [(11632 / 1594323, 11632 / 1594323, 5816 / 1594323),
                      (- (11632 / 1594323), - (11632 / 1594323), - (5816 / 1594323))],
             st_traj = []\<rparr>;
       r = md_step 4 1 1 1 (\<lambda>i l. False) s 0
   in r = Inr (projr r) \<and> compute_forces (st_nz s) (st_x s) 4 = Inr (st_f0 s)
      \<and> st_v (projr r) ! 0
            = st_v s ! 0 + vscale (0.5 * 1 / 1) (st_f0 s ! 0 + st_f0 (projr r) ! 0)"
proof -
  let ?s = "\<lparr>st_x = [(2, 2, 1), (0, 0, 0)], st_nz = (\<lambda>i l. False),
             st_v = [(1, 0, 0), (0, 0, 0)],
             st_f0 = [(11632 / 1594323, 11632 / 1594323, 5816 / 1594323),
                      (- (11632 / 1594323), - (11632 / 1594323), - (5816 / 1594323))],
             st_traj = []\<rparr>"
  obtain s' where s': "md_step 4 1 1 1 (\<lambda>i l. False) ?s 0 = Inr s'"
    using md_step_example by blast
  have f: "compute_forces (st_nz ?s) (st_x ?s) 4 = Inr (st_f0 ?s)"
    by (simp add: forces_example)
  show ?thesis
    using velocity_update_average [OF s' f] s' f by (auto simp: Let_def)
qed

section \<open>Momentum\<close>

lemma vscale_add: "vscale c (u + w) = vscale c u + vscale c w"
  by (cases u; cases w) (simp add: vscale_def algebra_simps)

lemma vscale_zero: "vscale c (0, 0, 0) = (0, 0, 0)"
  by (simp add: vscale_def)

lemma sum_list_vscale: "sum_list (map (vscale c) a) = vscale c (sum_list a)"
  by (induction a) (simp_all add: vscale_add vscale_zero zero_prod_def)

lemma sum_list_velocity_update:
  fixes v f0 f1 :: "vec3 list"
  assumes "length f0 = length v" and "length f1 = length v"
  shows "sum_list (map (\<lambda>i. v ! i + vscale c (f0 ! i + f1 ! i)) [0..<length v])
           = sum_list v + vscale c (sum_list f0 + sum_list f1)"
proof -
  have f0: "map (\<lambda>i. f0 ! i) [0..<length v] = f0" and f1: "map (\<lambda>i. f1 ! i) [0..<length v] = f1"
    using assms map_nth [of f0] map_nth [of f1] by simp_all
  have "sum_list (map (\<lambda>i. v ! i + vscale c (f0 ! i + f1 ! i)) [0..<length v])
          = sum_list (map (\<lambda>i. v ! i) [0..<length v])
            + sum_list (map (\<lambda>i. vscale c (f0 ! i + f1 ! i)) [0..<length v])"
    by (rule sum_list_addf)
  also have "sum_list (map (\<lambda>i. vscale c (f0 ! i + f1 ! i)) [0..<length v])
          = sum_list (map (vscale c) (map (\<lambda>i. f0 ! i + f1 ! i) [0..<length v]))"
    by (simp add: comp_def)
  also have "\<dots> = vscale c (sum_list (map (\<lambda>i. f0 ! i + f1 ! i) [0..<length v]))"
    by (rule sum_list_vscale)
  also have "sum_list (map (\<lambda>i. f0 ! i + f1 ! i) [0..<length v])
          = sum_list (map (\<lambda>i. f0 ! i) [0..<length v]) + sum_list (map (\<lambda>i. f1 ! i) [0..<length v])"
    by (rule sum_list_addf)
  finally show ?thesis
    by (simp add: f0 f1 map_nth)
qed

lemma compute_forces_sum: "compute_forces nz x L = Inr f \<Longrightarrow> sum_list f = (0, 0, 0)"
  using lj_force_sum [of nz x L f] by (simp add: compute_forces_def)

lemma md_step_velocity_sum:
  assumes "md_step L m dump dt nz s step = Inr s'"
    and "compute_forces (st_nz s) (st_x s) L = Inr (st_f0 s)"
  shows "sum_list (st_v s') = sum_list (st_v s)
         \<and> compute_forces (st_nz s') (st_x s') L = Inr (st_f0 s')"
proof -
  have l0: "length (st_f0 s) = length (st_x s)"
    using assms(2) by (rule compute_forces_length)
  from md_step_parts [OF assms(1)] obtain x' f1 v' where
    p: "velocity_verlet_update_positions (st_x s) (st_v s) (st_f0 s) m dt L = Inr x'"
    and f: "compute_forces nz x' L = Inr f1"
    and v: "velocity_verlet_update_velocities (st_v s) (st_f0 s) f1 m dt = Inr v'"
    and s': "st_x s' = x'" "st_nz s' = nz" "st_v s' = v'" "st_f0 s' = f1"
    by blast
  have sh: "length (st_v s) = length (st_x s)" "length f1 = length (st_x s)" "m \<noteq> 0"
    using md_step_shapes [OF assms(1) l0] s' by simp_all
  have "v' = map (\<lambda>i. st_v s ! i + vscale (0.5 * dt / m) (st_f0 s ! i + f1 ! i))
               [0..<length (st_v s)]"
    using v update_velocities_same_shape [of "st_f0 s" "st_v s" f1 m dt] sh l0 by simp
  then have "sum_list v' = sum_list (st_v s)
                 + vscale (0.5 * dt / m) (sum_list (st_f0 s) + sum_list f1)"
    using sum_list_velocity_update [of "st_f0 s" "st_v s" f1 "0.5 * dt / m"] sh l0 by simp
  also have "\<dots> = sum_list (st_v s)"
    using compute_forces_sum [OF assms(2)] compute_forces_sum [OF f]
    by (simp add: vscale_zero) (simp add: zero_prod_def [symmetric])
  finally show ?thesis
    using s' f by simp
qed

lemma md_loop_velocity_sum:
  assumes "md_loop L m dump dt nzs steps s = Inr s'"
    and "compute_forces (st_nz s) (st_x s) L = Inr (st_f0 s)"
  shows "sum_list (st_v s') = sum_list (st_v s)"
  using assms
proof (induction steps arbitrary: s)
  case Nil
  then show ?case by simp
next
  case (Cons step steps)
  from Cons.prems(1) obtain s1 where s1: "md_step L m dump dt (nzs step) s step = Inr s1"
    and rest: "md_loop L m dump dt nzs steps s1 = Inr s'"
    by (auto split: sum.splits)
  have i: "sum_list (st_v s1) = sum_list (st_v s) \<and> compute_forces (st_nz s1) (st_x s1) L = Inr (st_f0 s1)"
    using s1 Cons.prems(2) by (rule md_step_velocity_sum)
  then show ?case
    using Cons.IH [OF rest] by simp
qed

text \<open>
  Claim C6 (conservation of momentum). A step of \<open>run_md\<close> that starts with \<open>f0\<close>
  the forces of the current positions and that returns leaves the total momentum
  \<open>\<Sum> m * v[i]\<close> unchanged, and the total momentum at the end of a run that returns
  is that of the initial velocities, whatever the number of steps.
\<close>

theorem momentum_conserved:
  "(md_step L m dump dt nz s step = Inr s' \<and> compute_forces (st_nz s) (st_x s) L = Inr (st_f0 s)
      \<longrightarrow> momentum m (st_v s') = momentum m (st_v s))
   \<and> (run_md x nz0 v L n_steps m dump dt nzs = Inr s_end
      \<longrightarrow> momentum m (st_v s_end) = momentum m v)"
proof (intro conjI impI)
  assume "md_step L m dump dt nz s step = Inr s' \<and> compute_forces (st_nz s) (st_x s) L = Inr (st_f0 s)"
  then show "momentum m (st_v s') = momentum m (st_v s)"
    using md_step_velocity_sum [of L m dump dt nz s step s']
    by (simp add: momentum_def sum_list_vscale)
next
  assume r: "run_md x nz0 v L n_steps m dump dt nzs = Inr s_end"
  then obtain f0 where f0: "compute_forces nz0 x L = Inr f0"
    and l: "md_loop L m dump dt nzs [0..<nat n_steps]
              \<lparr>st_x = x, st_nz = nz0, st_v = v, st_f0 = f0, st_traj = []\<rparr> = Inr s_end"
    by (auto simp: run_md_def split: sum.splits)
  have "sum_list (st_v s_end) = sum_list (st_v \<lparr>st_x = x, st_nz = nz0, st_v = v, st_f0 = f0, st_traj = []\<rparr>)"
    using l by (rule md_loop_velocity_sum) (simp add: f0)
  then show "momentum m (st_v s_end) = momentum m v"
    by (simp add: momentum_def sum_list_vscale)
qed

theorem momentum_conserved_witness:
  "let s = \<lparr>st_x = [(2, 2, 1), (0, 0, 0)], st_nz = (\<lambda>i l. False),
             st_v = [(1, 0, 0), (0, 0, 0)],
             st_f0 = [(11632 / 1594323, 11632 / 1594323, 5816 / 1594323),
                      (- (11632 / 1594323), - (11632 / 1594323), - (5816 / 1594323))],
             st_traj = []\<rparr>;
       r = md_step 4 1 1 1 (\<lambda>i l. False) s 0;
       q = run_md [(2, 2, 1), (0, 0, 0)] (\<lambda>i l. False) [(1, 0, 0), (0, 0, 0)] 4 1 1 1 1
         (\<lambda>k i l. False)
   in r = Inr (projr r) \<and> compute_forces (st_nz s) (st_x s) 4 = Inr (st_f0 s)
      \<and> momentum 1 (st_v (projr r)) = (1, 0, 0)
      \<and> q = Inr (projr q) \<and> momentum 1 (st_v (projr q)) = (1, 0, 0)"
proof -
  let ?s = "\<lparr>st_x = [(2, 2, 1), (0, 0, 0)], st_nz = (\<lambda>i l. False),
             st_v = [(1, 0, 0), (0, 0, 0)],
             st_f0 = [(11632 / 1594323, 11632 / 1594323, 5816 / 1594323),
                      (- (11632 / 1594323), - (11632 / 1594323), - (5816 / 1594323))],
             st_traj = []\<rparr>"
  obtain s' where s': "md_step 4 1 1 1 (\<lambda>i l. False) ?s 0 = Inr s'"
    using md_step_example by blast
  obtain s_end where q: "run_md [(2, 2, 1), (0, 0, 0)] (\<lambda>i l. False) [(1, 0, 0), (0, 0, 0)] 4 1 1 1 1
         (\<lambda>k i l. False) = Inr s_end"
    using run_md_example by blast
  have f: "compute_forces (st_nz ?s) (st_x ?s) 4 = Inr (st_f0 ?s)"
    by (simp add: forces_example)
  have m: "momentum 1 [(1, 0, 0), (0, 0, 0)] = (1, 0, 0)"
    by (simp add: momentum_def vscale_def)
  show ?thesis
    using momentum_conserved [of 4 1 1 1 "\<lambda>i l. False" ?s 0 s' "[(2, 2, 1), (0, 0, 0)]"
        "\<lambda>i l. False" "[(1, 0, 0), (0, 0, 0)]" 1 "\<lambda>k i l. False" s_end] s' q f m
    by (simp add: Let_def)
qed

section \<open>Two particles at the equilibrium distance\<close>

lemma root62_bounds: "1 \<le> root 6 2" "root 6 2 \<le> 2"
proof -
  show "1 \<le> root 6 2" by simp
  have "root 6 ((2::real) ^ 6) = 2" by (rule real_root_power_cancel) simp_all
  then have e: "root 6 (64::real) = 2" by simp
  have "root 6 (2::real) \<le> root 6 64" by (rule real_root_le_mono) simp_all
  then show "root 6 2 \<le> 2" by (simp only: e)
qed

lemma far_force_bound:
  fixes d :: real
  assumes "9 \<le> d" and "d \<le> 12"
  shows "1 / 500 < 48 * (d powi (- 3)) * (1 - 2 * d powi (- 3)) / d"
proof -
  have d3: "729 \<le> d ^ 3"
    using power_mono [of 9 d 3] assms(1) by simp
  have d4: "d ^ 4 \<le> 20736"
    using power_mono [of d 12 4] assms by simp
  have pos: "0 < d ^ 3" "0 < d ^ 4" "0 < d" using assms(1) by simp_all
  have i3: "d powi (- 3) = 1 / d ^ 3"
    by (simp add: power_int_def inverse_eq_divide power_one_over)
  have a: "1 / 1728 \<le> 1 / d ^ 3"
    using power_mono [of d 12 3] assms pos by (simp add: field_simps)
  have b: "1 / d ^ 3 \<le> 1 / 729"
    using d3 pos by (simp add: field_simps)
  have "48 * (d powi (- 3)) * (1 - 2 * d powi (- 3)) / d
          = 48 * (1 / d ^ 4) * (1 - 2 * (1 / d ^ 3))"
    using pos by (simp add: i3 power4_eq_xxxx power3_eq_cube)
  moreover have "1 / 20736 \<le> 1 / d ^ 4"
    using d4 pos by (simp add: field_simps)
  moreover have "727 / 729 \<le> 1 - 2 * (1 / d ^ 3)"
    using b by simp
  ultimately have "48 * (1 / 20736) * (727 / 729) \<le> 48 * (d powi (- 3)) * (1 - 2 * d powi (- 3)) / d"
    using mult_mono [of "48 * (1 / 20736)" "48 * (1 / d ^ 4)" "727 / 729" "1 - 2 * (1 / d ^ 3)"]
    by simp
  then show ?thesis by simp
qed


lemma far_force_algebra:
  fixes p s :: real
  shows "24 * (p / s) * (2 * p - 1) * (- 2 / s) = 48 * p * (1 - 2 * p) / (s * s)"
  by (cases "s = 0") (simp_all add: field_simps)

text \<open>
  Claim C8 (no force at the Lennard-Jones minimum; no coordinate below is a negative
  zero). Two particles at \<open>(1, 1, 1)\<close>
  and \<open>(1 + 2^(1/6) * sigma, 1, 1)\<close> in a box of length 4 are \<open>2^(1/6) * sigma\<close>
  apart along the first axis, and the claim gives a zero force on each. The periodic
  check turns the two zero components of the separation into \<open>-2\<close>, the distance
  becomes \<open>sqrt (2^(1/3) + 8)\<close>, and the second component of the force exceeds
  \<open>1/500\<close> in magnitude on both particles.
\<close>

theorem equilibrium_divergence:
  "\<exists>f. compute_forces (\<lambda>i l. False) [(1, 1, 1), (1 + root 6 2 * sigma, 1, 1)] 4 = Inr f
       \<and> vnth (f ! 0) 1 < - (1 / 500) \<and> 1 / 500 < vnth (f ! 1) 1"
proof -
  define d :: real where "d = (root 6 2) ^ 2 + 8"
  define c :: real where "c = 24 * eps * sigma7 * (d powi (- 3) / sqrt d) * (2 * sigma6 * d powi (- 3) - 1)"
  have r1: "1 \<le> (root 6 2) ^ 2"
    using root62_bounds(1) by (simp add: one_le_power)
  have r2: "(root 6 2) ^ 2 \<le> 4"
    using power_mono [of "root 6 2" 2 2] root62_bounds by simp
  have d: "9 \<le> d" "d \<le> 12"
    using r1 r2 by (simp_all add: d_def)
  have sd: "0 < sqrt d" "sqrt d * sqrt d = d"
    using d(1) by simp_all
  have h: "\<not> root 6 2 * 2 < (1::real)"
    using root62_bounds(1) by linarith
  have sep: "separation 4 (1, 1, 1) (\<lambda>l. False) (1 + root 6 2 * sigma, 1, 1) (\<lambda>l. False)
               = (- root 6 2, - 2, - 2)"
    using h
    by (simp add: separation_def no_negzero_diff check_pbc_triple pbc_shift_def copysign1_def
        sigma_def zero_prod_def)
  have dd: "vdot (- root 6 2, - 2, - 2) (- root 6 2, - 2, - 2) = d"
    by (simp add: vdot_def d_def power2_eq_square)
  have pair: "lj_pair 4 (1, 1, 1) (\<lambda>l. False) (1 + root 6 2 * sigma, 1, 1) (\<lambda>l. False)
                = Inr (vscale c (vdiv (- root 6 2, - 2, - 2) (sqrt d)))"
    unfolding lj_pair_def sep using sd(1) by (simp add: lj_of_sep_def dd Let_def c_def)
  have f: "compute_forces (\<lambda>i l. False) [(1, 1, 1), (1 + root 6 2 * sigma, 1, 1)] 4
             = Inr [0 - vscale c (vdiv (- root 6 2, - 2, - 2) (sqrt d)),
                    0 + vscale c (vdiv (- root 6 2, - 2, - 2) (sqrt d))]"
    by (simp add: compute_forces_def lj_force_two pair)
  have "c * (- 2 / sqrt d) = 24 * (d powi (- 3) / sqrt d) * (2 * d powi (- 3) - 1) * (- 2 / sqrt d)"
    by (simp add: c_def eps_def sigma_def sigma6_def sigma7_def)
  also have "\<dots> = 48 * (d powi (- 3)) * (1 - 2 * d powi (- 3)) / (sqrt d * sqrt d)"
    by (rule far_force_algebra)
  finally have y: "c * (- 2 / sqrt d) = 48 * (d powi (- 3)) * (1 - 2 * d powi (- 3)) / d"
    by (simp only: sd(2))
  have "1 / 500 < c * (- 2 / sqrt d)"
    unfolding y using d by (rule far_force_bound)
  then show ?thesis
    unfolding f by (simp add: vnth_def vscale_def vdiv_def zero_prod_def)
qed

end
